theory Spec2Isabelle
  imports Main
begin

section \<open>Python values, exception classes and outcomes\<close>

text \<open>
  The repository is a command line tool in Python: \<^verbatim>\<open>arg_parser.py\<close>,
  \<^verbatim>\<open>file_reader.py\<close>, \<^verbatim>\<open>error_handler.py\<close> and the two entry scripts
  \<^verbatim>\<open>extract-recall.py\<close> and \<^verbatim>\<open>trafilatura-recall-extractor.py\<close>.
  Its control flow is exception based, and the handler of \<^verbatim>\<open>error_handler.py\<close>
  selects its clause by the class of the exception, so exception classes are modelled with
  their base class: \<open>Derived n b\<close> is the class named \<open>n\<close> whose base is \<open>b\<close>.
\<close>

datatype py_class = BaseException | Derived string py_class

abbreviation Exception :: py_class where
  "Exception \<equiv> Derived ''Exception'' BaseException"

abbreviation ValueError :: py_class where
  "ValueError \<equiv> Derived ''ValueError'' Exception"

abbreviation OSError :: py_class where
  "OSError \<equiv> Derived ''OSError'' Exception"

text \<open>In Python 3 the name \<^verbatim>\<open>IOError\<close> is bound to the class \<^verbatim>\<open>OSError\<close>.\<close>

abbreviation (input) IOError :: py_class where
  "IOError \<equiv> OSError"

abbreviation FileNotFoundError :: py_class where
  "FileNotFoundError \<equiv> Derived ''FileNotFoundError'' OSError"

abbreviation UnicodeDecodeError :: py_class where
  "UnicodeDecodeError \<equiv> Derived ''UnicodeDecodeError'' (Derived ''UnicodeError'' ValueError)"

abbreviation RuntimeError :: py_class where
  "RuntimeError \<equiv> Derived ''RuntimeError'' Exception"

abbreviation KeyboardInterrupt :: py_class where
  "KeyboardInterrupt \<equiv> Derived ''KeyboardInterrupt'' BaseException"

text \<open>\<open>issubclass c d\<close>: the class \<open>c\<close> is \<open>d\<close> or derives from it; an
  \<^verbatim>\<open>except d\<close> clause catches an exception of class \<open>c\<close> exactly then.\<close>

fun issubclass :: "py_class \<Rightarrow> py_class \<Rightarrow> bool" where
  "issubclass BaseException d = (d = BaseException)"
| "issubclass (Derived n b) d = (Derived n b = d \<or> issubclass b d)"

text \<open>An exception object: its class and the text \<^verbatim>\<open>str(e)\<close> gives.\<close>

record exn =
  cls :: py_class
  msg :: string

text \<open>The extraction collaborator returns a string or \<^verbatim>\<open>None\<close>.\<close>

datatype py_value = PyNone | PyStr string

fun py_str :: "py_value \<Rightarrow> string" where
  "py_str PyNone = ''None''"
| "py_str (PyStr s) = s"

text \<open>The functions of the repository; \<open>Exits s c\<close> below records that the body of
  \<open>s\<close> called \<^verbatim>\<open>sys.exit(c)\<close>.\<close>

datatype site = ArgParser | FileReader | ExtractRecallRun | ErrorHandler | RecallExtractorMain

text \<open>What a call does: it returns a value, raises an exception, or leaves the process
  through \<^verbatim>\<open>sys.exit(code)\<close>. No \<^verbatim>\<open>except\<close> clause of the repository
  catches \<^verbatim>\<open>SystemExit\<close>, so an exit passes through every caller.\<close>

datatype 'a outcome = Returns 'a | Raises exn | Exits site int

abbreviation nl :: string where
  "nl \<equiv> [CHR 0x0A]"

section \<open>The environment\<close>

text \<open>The file system as \<^verbatim>\<open>pathlib.Path\<close> shows it: \<^verbatim>\<open>exists()\<close> and
  \<^verbatim>\<open>is_file()\<close>, which answer with a boolean, and
  \<^verbatim>\<open>read_text(encoding="utf-8")\<close>, which returns the decoded content or raises.\<close>

record filesystem =
  path_exists :: "string \<Rightarrow> bool"
  path_is_file :: "string \<Rightarrow> bool"
  path_read_text :: "string \<Rightarrow> exn + string"

text \<open>The external call \<^verbatim>\<open>extract(content, favor_recall=..., output_format=...)\<close>; the
  format is \<open>None\<close> where the keyword is not passed. It returns a value or raises.\<close>

type_synonym extractor = "string \<Rightarrow> bool \<Rightarrow> string option \<Rightarrow> exn + py_value"

text \<open>The observable state of one process: what was written to the two streams, and the
  calls of the collaborator with their arguments, in order.\<close>

record world =
  stdout :: string
  stderr :: string
  extract_calls :: "(string \<times> bool \<times> string option) list"

definition world0 :: world where
  "world0 = \<lparr>stdout = [], stderr = [], extract_calls = []\<rparr>"

text \<open>\<^verbatim>\<open>print(x)\<close> writes \<^verbatim>\<open>str(x)\<close> and a newline to standard output;
  \<^verbatim>\<open>sys.stderr.write(s)\<close> writes \<open>s\<close> to the error stream. Both streams accept
  every write.\<close>

definition py_print :: "py_value \<Rightarrow> world \<Rightarrow> world" where
  "py_print x w = w\<lparr>stdout := stdout w @ py_str x @ nl\<rparr>"

definition stderr_write :: "string \<Rightarrow> world \<Rightarrow> world" where
  "stderr_write s w = w\<lparr>stderr := stderr w @ s\<rparr>"

definition call_extract ::
  "extractor \<Rightarrow> string \<Rightarrow> bool \<Rightarrow> string option \<Rightarrow> world \<Rightarrow> (exn + py_value) \<times> world" where
  "call_extract ext content favor_recall output_format w =
     (ext content favor_recall output_format,
      w\<lparr>extract_calls := extract_calls w @ [(content, favor_recall, output_format)]\<rparr>)"

section \<open>arg\_parser.py\<close>

text \<open>\<^verbatim>\<open>sep.join(xs)\<close>\<close>

fun str_join :: "string \<Rightarrow> string list \<Rightarrow> string" where
  "str_join sep [] = []"
| "str_join sep [x] = x"
| "str_join sep (x # y # ys) = x @ sep @ str_join sep (y # ys)"

definition valid_formats :: "string list" where
  "valid_formats = [''html'', ''txt'']"

definition get_args_from_command_line :: "string list \<Rightarrow> (string \<times> string) outcome" where
  "get_args_from_command_line argv =
     (if length argv < 3 then
        Raises \<lparr>cls = ValueError, msg = ''Usage: <script> <file_path> <output_format>''\<rparr>
      else
        let file_path = argv ! 1;
            output_format = argv ! 2
        in if output_format \<notin> set valid_formats then
             Raises \<lparr>cls = ValueError,
                     msg = ''Invalid output format: '' @ output_format
                           @ ''. Valid formats: '' @ str_join '', '' valid_formats\<rparr>
           else Returns (file_path, output_format))"

section \<open>file\_reader.py\<close>

definition read_file_content :: "filesystem \<Rightarrow> string \<Rightarrow> string outcome" where
  "read_file_content fs file_path =
     (if \<not> path_exists fs file_path then
        Raises \<lparr>cls = FileNotFoundError, msg = ''File not found: '' @ file_path\<rparr>
      else if \<not> path_is_file fs file_path then
        Raises \<lparr>cls = ValueError, msg = ''Path is not a file: '' @ file_path\<rparr>
      else
        case path_read_text fs file_path of
          Inl e \<Rightarrow>
            if issubclass (cls e) Exception then
              Raises \<lparr>cls = IOError, msg = ''Error reading file: '' @ msg e\<rparr>
            else Raises e
        | Inr content \<Rightarrow> Returns content)"

section \<open>error\_handler.py\<close>

definition run_with_error_handling ::
  "(world \<Rightarrow> 'a outcome \<times> world) \<Rightarrow> world \<Rightarrow> 'a outcome \<times> world" where
  "run_with_error_handling func w =
     (case func w of
        (Returns v, w') \<Rightarrow> (Returns v, w')
      | (Exits s c, w') \<Rightarrow> (Exits s c, w')
      | (Raises e, w') \<Rightarrow>
          if issubclass (cls e) ValueError then
            (Exits ErrorHandler 1, stderr_write (''Error: '' @ msg e @ nl) w')
          else if issubclass (cls e) FileNotFoundError then
            (Exits ErrorHandler 1, stderr_write (''Error: '' @ msg e @ nl) w')
          else if issubclass (cls e) IOError then
            (Exits ErrorHandler 1, stderr_write (''Error: '' @ msg e @ nl) w')
          else if issubclass (cls e) Exception then
            (Exits ErrorHandler 1, stderr_write (''Unexpected error: '' @ msg e @ nl) w')
          else (Raises e, w'))"

section \<open>extract-recall.py\<close>

definition run :: "string list \<Rightarrow> filesystem \<Rightarrow> extractor \<Rightarrow> world \<Rightarrow> unit outcome \<times> world" where
  "run argv fs ext w =
     (case get_args_from_command_line argv of
        Raises e \<Rightarrow> (Raises e, w)
      | Exits s c \<Rightarrow> (Exits s c, w)
      | Returns (file_path, output_format) \<Rightarrow>
          (case read_file_content fs file_path of
             Raises e \<Rightarrow> (Raises e, w)
           | Exits s c \<Rightarrow> (Exits s c, w)
           | Returns content \<Rightarrow>
               (case call_extract ext content True (Some output_format) w of
                  (Inl e, w1) \<Rightarrow> (Raises e, w1)
                | (Inr extracted, w1) \<Rightarrow> (Returns (), py_print extracted w1))))"

text \<open>\<^verbatim>\<open>main\<close> of \<^verbatim>\<open>extract-recall.py\<close>: it drops what the handler returns.\<close>

definition extract_recall_main ::
  "string list \<Rightarrow> filesystem \<Rightarrow> extractor \<Rightarrow> world \<Rightarrow> unit outcome \<times> world" where
  "extract_recall_main argv fs ext w =
     (case run_with_error_handling (run argv fs ext) w of
        (Returns v, w') \<Rightarrow> (Returns (), w')
      | (Raises e, w') \<Rightarrow> (Raises e, w')
      | (Exits s c, w') \<Rightarrow> (Exits s c, w'))"

text \<open>The exit status of a script whose last statement is the call of \<^verbatim>\<open>main\<close>:
  0 when \<^verbatim>\<open>main\<close> returns, the argument of \<^verbatim>\<open>sys.exit\<close> when it was called. An
  exception that reaches the top level ends the process with a traceback, which is not
  given a status here.\<close>

fun exit_status :: "'a outcome \<Rightarrow> int option" where
  "exit_status (Returns v) = Some 0"
| "exit_status (Exits s c) = Some c"
| "exit_status (Raises e) = None"

section \<open>trafilatura-recall-extractor.py\<close>

definition recall_extractor_main ::
  "string list \<Rightarrow> filesystem \<Rightarrow> extractor \<Rightarrow> world \<Rightarrow> unit outcome \<times> world" where
  "recall_extractor_main argv fs ext w =
     (if length argv < 2 then
        (Exits RecallExtractorMain 1, stderr_write (''Missing argument: file path'' @ nl) w)
      else
        let file_path = argv ! 1 in
        if \<not> path_exists fs file_path \<or> \<not> path_is_file fs file_path then
          (Exits RecallExtractorMain 1,
           stderr_write (''Invalid file path: '' @ file_path @ nl) w)
        else
          case path_read_text fs file_path of
            Inl e \<Rightarrow>
              if issubclass (cls e) Exception then
                (Exits RecallExtractorMain 1,
                 stderr_write (''Read error: '' @ msg e @ nl) w)
              else (Raises e, w)
          | Inr content \<Rightarrow>
              (case call_extract ext content True None w of
                 (Inl e, w1) \<Rightarrow> (Raises e, w1)
               | (Inr extracted, w1) \<Rightarrow> (Returns (), py_print extracted w1)))"

section \<open>Concrete environments\<close>

text \<open>A file system with a regular file \<^verbatim>\<open>page.html\<close>, a directory \<^verbatim>\<open>docs\<close>, a
  regular file \<^verbatim>\<open>latin1.txt\<close> that does not decode, and nothing else.\<close>

definition demo_fs :: filesystem where
  "demo_fs =
     \<lparr>path_exists = (\<lambda>p. p \<in> set [''page.html'', ''docs'', ''latin1.txt'']),
      path_is_file = (\<lambda>p. p \<in> set [''page.html'', ''latin1.txt'']),
      path_read_text = (\<lambda>p.
        if p = ''page.html'' then Inr ''<p>Hello</p>''
        else if p = ''latin1.txt'' then
          Inl \<lparr>cls = UnicodeDecodeError, msg = ''invalid start byte''\<rparr>
        else Inl \<lparr>cls = FileNotFoundError, msg = ''No such file or directory''\<rparr>)\<rparr>"


text \<open>Collaborators: one that returns a text, one that returns \<^verbatim>\<open>None\<close>, one that
  raises a \<^verbatim>\<open>ValueError\<close> and one that raises a \<^verbatim>\<open>RuntimeError\<close>.\<close>

definition ext_text :: extractor where
  "ext_text content favor_recall output_format = Inr (PyStr ''Hello'')"

definition ext_none :: extractor where
  "ext_none content favor_recall output_format = Inr PyNone"

definition ext_value_error :: extractor where
  "ext_value_error content favor_recall output_format =
     Inl \<lparr>cls = ValueError, msg = ''bad markup''\<rparr>"

definition ext_runtime_error :: extractor where
  "ext_runtime_error content favor_recall output_format =
     Inl \<lparr>cls = RuntimeError, msg = ''parser failed''\<rparr>"

section \<open>Exception classes\<close>

lemma issubclass_refl: "issubclass c c"
  by (cases c) simp_all

lemma issubclass_base: "issubclass c (Derived n b) \<Longrightarrow> issubclass c b"
  by (induction c) (auto simp: issubclass_refl)

lemma str_join_valid_formats: "str_join '', '' valid_formats = ''html, txt''"
  by (simp add: valid_formats_def)

section \<open>The argument parser\<close>

lemma set_valid_formats: "set valid_formats = {''html'', ''txt''}"
  by (simp add: valid_formats_def)

lemma get_args_ok:
  "output_format \<in> set valid_formats \<Longrightarrow>
   get_args_from_command_line (script # file_path # output_format # rest)
     = Returns (file_path, output_format)"
  by (simp add: get_args_from_command_line_def)

lemma get_args_bad_format:
  "output_format \<notin> set valid_formats \<Longrightarrow>
   get_args_from_command_line (script # file_path # output_format # rest)
     = Raises \<lparr>cls = ValueError,
               msg = ''Invalid output format: '' @ output_format
                     @ ''. Valid formats: html, txt''\<rparr>"
  by (simp add: get_args_from_command_line_def str_join_valid_formats)

lemma get_args_too_few:
  "length argv < 3 \<Longrightarrow>
   get_args_from_command_line argv
     = Raises \<lparr>cls = ValueError, msg = ''Usage: <script> <file_path> <output_format>''\<rparr>"
  by (simp add: get_args_from_command_line_def)

text \<open>
  Claim C5. Whenever the output format (the third element of the argument list) is neither
  \<^verbatim>\<open>html\<close> nor \<^verbatim>\<open>txt\<close>, the argument parser raises a \<^verbatim>\<open>ValueError\<close> whose
  message ends with the list of the valid choices, \<^verbatim>\<open>html, txt\<close>.
\<close>

theorem arg_parser_rejects_unknown_format:
  assumes "output_format \<notin> {''html'', ''txt''}"
  shows "get_args_from_command_line (script # file_path # output_format # rest)
           = Raises \<lparr>cls = ValueError,
                     msg = ''Invalid output format: '' @ output_format
                           @ ''. Valid formats: '' @ ''html, txt''\<rparr>"
  using assms by (simp add: get_args_bad_format set_valid_formats)

theorem arg_parser_rejects_unknown_format_witness:
  "''pdf'' \<notin> {''html'', ''txt''} \<and>
   get_args_from_command_line [''extract-recall.py'', ''page.html'', ''pdf'']
     = Raises \<lparr>cls = ValueError,
               msg = ''Invalid output format: pdf. Valid formats: html, txt''\<rparr>"
  using arg_parser_rejects_unknown_format
          [of "''pdf''" "''extract-recall.py''" "''page.html''" "[]"]
  by simp

text \<open>
  Claim C6. The positional arguments are the argument list without the script name. With
  fewer than two of them the argument parser raises the usage \<^verbatim>\<open>ValueError\<close>; with at
  least two, the second being a valid format, it returns the pair of the first and the
  second.
\<close>

theorem arg_parser_arity:
  "(length (tl argv) < 2 \<longrightarrow>
      get_args_from_command_line argv
        = Raises \<lparr>cls = ValueError, msg = ''Usage: <script> <file_path> <output_format>''\<rparr>)
   \<and> (2 \<le> length (tl argv) \<and> tl argv ! 1 \<in> {''html'', ''txt''} \<longrightarrow>
      get_args_from_command_line argv = Returns (tl argv ! 0, tl argv ! 1))"
proof (intro conjI impI)
  assume "length (tl argv) < 2"
  then have "length argv < 3" by simp
  then show "get_args_from_command_line argv
        = Raises \<lparr>cls = ValueError, msg = ''Usage: <script> <file_path> <output_format>''\<rparr>"
    by (rule get_args_too_few)
next
  assume h: "2 \<le> length (tl argv) \<and> tl argv ! 1 \<in> {''html'', ''txt''}"
  then obtain script file_path output_format rest
    where argv: "argv = script # file_path # output_format # rest"
    by (cases argv; cases "tl argv"; cases "tl (tl argv)") auto
  with h have "output_format \<in> set valid_formats"
    by (simp add: set_valid_formats)
  then show "get_args_from_command_line argv = Returns (tl argv ! 0, tl argv ! 1)"
    unfolding argv by (simp add: get_args_ok)
qed

theorem arg_parser_arity_witness:
  "length (tl [''extract-recall.py'', ''page.html'']) < 2 \<and>
   get_args_from_command_line [''extract-recall.py'', ''page.html'']
     = Raises \<lparr>cls = ValueError, msg = ''Usage: <script> <file_path> <output_format>''\<rparr> \<and>
   2 \<le> length (tl [''extract-recall.py'', ''page.html'', ''html'']) \<and>
   tl [''extract-recall.py'', ''page.html'', ''html''] ! 1 \<in> {''html'', ''txt''} \<and>
   get_args_from_command_line [''extract-recall.py'', ''page.html'', ''html'']
     = Returns (''page.html'', ''html'')"
  using arg_parser_arity [of "[''extract-recall.py'', ''page.html'']"]
        arg_parser_arity [of "[''extract-recall.py'', ''page.html'', ''html'']"]
  by simp

text \<open>
  Claim C10. With more than two positional arguments the argument parser gives what it
  gives on the first two alone, value or error, and returns the pair of the first and the
  second whenever the second is a valid format.
\<close>

theorem arg_parser_ignores_extra:
  "get_args_from_command_line (script # file_path # output_format # extra # rest)
     = get_args_from_command_line [script, file_path, output_format]
   \<and> (output_format \<in> {''html'', ''txt''} \<longrightarrow>
        get_args_from_command_line (script # file_path # output_format # extra # rest)
          = Returns (file_path, output_format))"
  by (simp add: get_args_from_command_line_def set_valid_formats)

theorem arg_parser_ignores_extra_witness:
  "''txt'' \<in> {''html'', ''txt''} \<and>
   get_args_from_command_line [''extract-recall.py'', ''page.html'', ''txt'', ''--verbose'', ''9'']
     = Returns (''page.html'', ''txt'') \<and>
   get_args_from_command_line [''extract-recall.py'', ''page.html'', ''txt'', ''--verbose'', ''9'']
     = get_args_from_command_line [''extract-recall.py'', ''page.html'', ''txt'']"
  using arg_parser_ignores_extra
          [of "''extract-recall.py''" "''page.html''" "''txt''" "''--verbose''" "[''9'']"]
  by auto

section \<open>The file reader\<close>

lemma read_file_ok:
  "path_exists fs p \<Longrightarrow> path_is_file fs p \<Longrightarrow> path_read_text fs p = Inr content \<Longrightarrow>
   read_file_content fs p = Returns content"
  by (simp add: read_file_content_def)



lemma read_file_never_exits: "read_file_content fs p \<noteq> Exits s c"
  by (simp add: read_file_content_def split: sum.splits)


text \<open>
  Claim C7. When the path names an existing regular file and \<^verbatim>\<open>read_text\<close> raises an
  error (any class that derives from \<^verbatim>\<open>Exception\<close>: a decoding error, a permission
  error, any other), the file reader raises an \<^verbatim>\<open>IOError\<close> whose message is
  \<^verbatim>\<open>Error reading file: \<close> followed by the text of the underlying error. The class of
  the result does not depend on the class of the underlying error.
\<close>

theorem reader_wraps_read_errors:
  assumes "path_exists fs p" and "path_is_file fs p"
    and "path_read_text fs p = Inl e"
    and "issubclass (cls e) Exception"
  shows "read_file_content fs p
           = Raises \<lparr>cls = IOError, msg = ''Error reading file: '' @ msg e\<rparr>"
  using assms by (simp add: read_file_content_def)

theorem reader_wraps_read_errors_witness:
  "path_exists demo_fs ''latin1.txt'' \<and> path_is_file demo_fs ''latin1.txt'' \<and>
   path_read_text demo_fs ''latin1.txt''
     = Inl \<lparr>cls = UnicodeDecodeError, msg = ''invalid start byte''\<rparr> \<and>
   issubclass UnicodeDecodeError Exception \<and>
   read_file_content demo_fs ''latin1.txt''
     = Raises \<lparr>cls = IOError, msg = ''Error reading file: invalid start byte''\<rparr>"
  using reader_wraps_read_errors
          [of demo_fs "''latin1.txt''" "\<lparr>cls = UnicodeDecodeError, msg = ''invalid start byte''\<rparr>"]
  by (simp add: demo_fs_def)

section \<open>The pipeline of extract-recall.py\<close>

lemma get_args_never_exits: "get_args_from_command_line argv \<noteq> Exits s c"
  by (simp add: get_args_from_command_line_def Let_def)




lemma run_extract_returns:
  "get_args_from_command_line argv = Returns (p, fmt) \<Longrightarrow>
   read_file_content fs p = Returns content \<Longrightarrow>
   ext content True (Some fmt) = Inr v \<Longrightarrow>
   run argv fs ext w
     = (Returns (), w\<lparr>stdout := stdout w @ py_str v @ nl,
                       extract_calls := extract_calls w @ [(content, True, Some fmt)]\<rparr>)"
  by (simp add: run_def call_extract_def py_print_def)

lemma run_extract_raises:
  "get_args_from_command_line argv = Returns (p, fmt) \<Longrightarrow>
   read_file_content fs p = Returns content \<Longrightarrow>
   ext content True (Some fmt) = Inl e \<Longrightarrow>
   run argv fs ext w
     = (Raises e, w\<lparr>extract_calls := extract_calls w @ [(content, True, Some fmt)]\<rparr>)"
  by (simp add: run_def call_extract_def)

lemma run_never_exits: "fst (run argv fs ext w) \<noteq> Exits s c"
  by (simp add: run_def call_extract_def get_args_never_exits read_file_never_exits
           split: outcome.splits prod.splits sum.splits)


lemma handler_returns:
  "func w = (Returns v, w') \<Longrightarrow> run_with_error_handling func w = (Returns v, w')"
  by (simp add: run_with_error_handling_def)

lemma handler_catches:
  assumes "func w = (Raises e, w')" and "issubclass (cls e) Exception"
  shows "run_with_error_handling func w
           = (Exits ErrorHandler 1,
              stderr_write ((if issubclass (cls e) ValueError \<or> issubclass (cls e) OSError
                             then ''Error: '' else ''Unexpected error: '') @ msg e @ nl) w')"
proof -
  have "issubclass (cls e) FileNotFoundError \<Longrightarrow> issubclass (cls e) OSError"
    by (rule issubclass_base)
  with assms show ?thesis
    by (auto simp: run_with_error_handling_def)
qed

lemma handler_passes_non_exceptions:
  "func w = (Raises e, w') \<Longrightarrow> \<not> issubclass (cls e) Exception \<Longrightarrow>
   run_with_error_handling func w = (Raises e, w')"
  by (auto simp: run_with_error_handling_def dest: issubclass_base)

lemma handler_exit_site:
  "fst (run_with_error_handling func w) = Exits s c \<Longrightarrow>
   (s = ErrorHandler \<and> c = 1) \<or> fst (func w) = Exits s c"
  by (auto simp: run_with_error_handling_def split: prod.splits outcome.splits if_splits)

lemma main_returns:
  "run_with_error_handling (run argv fs ext) w = (Returns v, w') \<Longrightarrow>
   extract_recall_main argv fs ext w = (Returns (), w')"
  by (simp add: extract_recall_main_def)

lemma main_exits:
  "run_with_error_handling (run argv fs ext) w = (Exits s c, w') \<Longrightarrow>
   extract_recall_main argv fs ext w = (Exits s c, w')"
  by (simp add: extract_recall_main_def)

lemma main_success:
  assumes "fmt \<in> set valid_formats"
    and "path_exists fs p" and "path_is_file fs p" and "path_read_text fs p = Inr content"
    and "ext content True (Some fmt) = Inr v"
  shows "extract_recall_main (script # p # fmt # rest) fs ext world0
           = (Returns (), \<lparr>stdout = py_str v @ nl, stderr = [],
                            extract_calls = [(content, True, Some fmt)]\<rparr>)"
proof -
  have args: "get_args_from_command_line (script # p # fmt # rest) = Returns (p, fmt)"
    using assms(1) by (rule get_args_ok)
  have rd: "read_file_content fs p = Returns content"
    using assms(2,3,4) by (rule read_file_ok)
  have "run (script # p # fmt # rest) fs ext world0
          = (Returns (), world0\<lparr>stdout := stdout world0 @ py_str v @ nl,
               extract_calls := extract_calls world0 @ [(content, True, Some fmt)]\<rparr>)"
    using args rd assms(5) by (rule run_extract_returns)
  then have "run (script # p # fmt # rest) fs ext world0
          = (Returns (), \<lparr>stdout = py_str v @ nl, stderr = [],
                            extract_calls = [(content, True, Some fmt)]\<rparr>)"
    by (simp add: world0_def)
  then show ?thesis
    by (intro main_returns handler_returns)
qed


lemma main_extract_error:
  assumes "fmt \<in> set valid_formats"
    and "path_exists fs p" and "path_is_file fs p" and "path_read_text fs p = Inr content"
    and "ext content True (Some fmt) = Inl e" and "issubclass (cls e) Exception"
  shows "extract_recall_main (script # p # fmt # rest) fs ext world0
           = (Exits ErrorHandler 1,
              \<lparr>stdout = [],
               stderr = (if issubclass (cls e) ValueError \<or> issubclass (cls e) OSError
                         then ''Error: '' else ''Unexpected error: '') @ msg e @ nl,
               extract_calls = [(content, True, Some fmt)]\<rparr>)"
proof -
  have args: "get_args_from_command_line (script # p # fmt # rest) = Returns (p, fmt)"
    using assms(1) by (rule get_args_ok)
  have rd: "read_file_content fs p = Returns content"
    using assms(2,3,4) by (rule read_file_ok)
  have "run (script # p # fmt # rest) fs ext world0
          = (Raises e, world0\<lparr>extract_calls := extract_calls world0 @ [(content, True, Some fmt)]\<rparr>)"
    using args rd assms(5) by (rule run_extract_raises)
  then have "run_with_error_handling (run (script # p # fmt # rest) fs ext) world0
     = (Exits ErrorHandler 1,
              stderr_write ((if issubclass (cls e) ValueError \<or> issubclass (cls e) OSError
                             then ''Error: '' else ''Unexpected error: '') @ msg e @ nl)
               (world0\<lparr>extract_calls := extract_calls world0 @ [(content, True, Some fmt)]\<rparr>))"
    using assms(6) by (rule handler_catches)
  then show ?thesis
    by (simp add: main_exits stderr_write_def world0_def)
qed

lemma recall_extractor_success:
  assumes "path_exists fs p" and "path_is_file fs p"
    and "path_read_text fs p = Inr content"
    and "ext content True None = Inr v"
  shows "recall_extractor_main (script # p # rest) fs ext world0
           = (Returns (), \<lparr>stdout = py_str v @ nl, stderr = [],
                            extract_calls = [(content, True, None)]\<rparr>)"
  using assms
  by (simp add: recall_extractor_main_def call_extract_def py_print_def world0_def)



text \<open>
  Claim C9. Arguments valid, file read, and the collaborator returns \<^verbatim>\<open>None\<close>:
  the program ends with exit status 0 and standard output holds the line \<^verbatim>\<open>None\<close>.
  The same holds of \<^verbatim>\<open>trafilatura-recall-extractor.py\<close>, which calls the collaborator
  without a format.
\<close>

theorem none_result_is_printed:
  assumes "path_exists fs p" and "path_is_file fs p"
    and "path_read_text fs p = Inr content"
  shows "(fmt \<in> {''html'', ''txt''} \<and> ext content True (Some fmt) = Inr PyNone \<longrightarrow>
            extract_recall_main (script # p # fmt # rest) fs ext world0
              = (Returns (), \<lparr>stdout = ''None'' @ nl, stderr = [],
                               extract_calls = [(content, True, Some fmt)]\<rparr>)
            \<and> exit_status (fst (extract_recall_main (script # p # fmt # rest) fs ext world0))
                = Some 0)
         \<and> (ext content True None = Inr PyNone \<longrightarrow>
            recall_extractor_main (script # p # rest) fs ext world0
              = (Returns (), \<lparr>stdout = ''None'' @ nl, stderr = [],
                               extract_calls = [(content, True, None)]\<rparr>)
            \<and> exit_status (fst (recall_extractor_main (script # p # rest) fs ext world0))
                = Some 0)"
proof (intro conjI impI)
  assume h: "fmt \<in> {''html'', ''txt''} \<and> ext content True (Some fmt) = Inr PyNone"
  then have "fmt \<in> set valid_formats"
    by (simp add: set_valid_formats)
  then have "extract_recall_main (script # p # fmt # rest) fs ext world0
           = (Returns (), \<lparr>stdout = py_str PyNone @ nl, stderr = [],
                            extract_calls = [(content, True, Some fmt)]\<rparr>)"
    using assms h by (intro main_success) simp_all
  then show "extract_recall_main (script # p # fmt # rest) fs ext world0
              = (Returns (), \<lparr>stdout = ''None'' @ nl, stderr = [],
                               extract_calls = [(content, True, Some fmt)]\<rparr>)"
    and "exit_status (fst (extract_recall_main (script # p # fmt # rest) fs ext world0)) = Some 0"
    by simp_all
next
  assume "ext content True None = Inr PyNone"
  with assms have "recall_extractor_main (script # p # rest) fs ext world0
           = (Returns (), \<lparr>stdout = py_str PyNone @ nl, stderr = [],
                            extract_calls = [(content, True, None)]\<rparr>)"
    by (rule recall_extractor_success)
  then show "recall_extractor_main (script # p # rest) fs ext world0
              = (Returns (), \<lparr>stdout = ''None'' @ nl, stderr = [],
                               extract_calls = [(content, True, None)]\<rparr>)"
    and "exit_status (fst (recall_extractor_main (script # p # rest) fs ext world0)) = Some 0"
    by simp_all
qed

theorem none_result_is_printed_witness:
  "path_exists demo_fs ''page.html'' \<and> path_is_file demo_fs ''page.html'' \<and>
   path_read_text demo_fs ''page.html'' = Inr ''<p>Hello</p>'' \<and>
   ''txt'' \<in> {''html'', ''txt''} \<and>
   ext_none ''<p>Hello</p>'' True (Some ''txt'') = Inr PyNone \<and>
   ext_none ''<p>Hello</p>'' True None = Inr PyNone \<and>
   extract_recall_main [''extract-recall.py'', ''page.html'', ''txt''] demo_fs ext_none world0
     = (Returns (), \<lparr>stdout = ''None'' @ nl, stderr = [],
                      extract_calls = [(''<p>Hello</p>'', True, Some ''txt'')]\<rparr>) \<and>
   recall_extractor_main [''trafilatura-recall-extractor.py'', ''page.html''] demo_fs ext_none world0
     = (Returns (), \<lparr>stdout = ''None'' @ nl, stderr = [],
                      extract_calls = [(''<p>Hello</p>'', True, None)]\<rparr>)"
  using none_result_is_printed
          [of demo_fs "''page.html''" "''<p>Hello</p>''" "''txt''" ext_none
              "''extract-recall.py''" "[]"]
        none_result_is_printed
          [of demo_fs "''page.html''" "''<p>Hello</p>''" "''txt''" ext_none
              "''trafilatura-recall-extractor.py''" "[]"]
  by (simp add: demo_fs_def ext_none_def)

text \<open>
  Claim C2, amended. An error raised by the collaborator (a class that derives from
  \<^verbatim>\<open>Exception\<close>) leaves \<^verbatim>\<open>run\<close> as it was raised, and the handler ends the
  process with status 1 after one line on the error stream. The handler chooses the line by
  the class of the error, not by where it was raised: \<^verbatim>\<open>Unexpected error: <message>\<close>
  when the class derives neither from \<^verbatim>\<open>ValueError\<close> nor from \<^verbatim>\<open>OSError\<close>
  (\<^verbatim>\<open>IOError\<close>, \<^verbatim>\<open>FileNotFoundError\<close>), and \<^verbatim>\<open>Error: <message>\<close> when it
  does.
\<close>

theorem collaborator_error_by_class:
  assumes "fmt \<in> {''html'', ''txt''}"
    and "path_exists fs p" and "path_is_file fs p"
    and "path_read_text fs p = Inr content"
    and "ext content True (Some fmt) = Inl e"
    and "issubclass (cls e) Exception"
  shows "run (script # p # fmt # rest) fs ext world0
           = (Raises e, \<lparr>stdout = [], stderr = [],
                          extract_calls = [(content, True, Some fmt)]\<rparr>)
         \<and> extract_recall_main (script # p # fmt # rest) fs ext world0
           = (Exits ErrorHandler 1,
              \<lparr>stdout = [],
               stderr = (if issubclass (cls e) ValueError \<or> issubclass (cls e) OSError
                         then ''Error: '' else ''Unexpected error: '') @ msg e @ nl,
               extract_calls = [(content, True, Some fmt)]\<rparr>)
         \<and> exit_status (fst (extract_recall_main (script # p # fmt # rest) fs ext world0))
             = Some 1"
proof -
  have fmt: "fmt \<in> set valid_formats"
    using assms(1) by (simp add: set_valid_formats)
  have args: "get_args_from_command_line (script # p # fmt # rest) = Returns (p, fmt)"
    using fmt by (rule get_args_ok)
  have rd: "read_file_content fs p = Returns content"
    using assms(2,3,4) by (rule read_file_ok)
  have "run (script # p # fmt # rest) fs ext world0
          = (Raises e, world0\<lparr>extract_calls := extract_calls world0 @ [(content, True, Some fmt)]\<rparr>)"
    using args rd assms(5) by (rule run_extract_raises)
  then have r: "run (script # p # fmt # rest) fs ext world0
           = (Raises e, \<lparr>stdout = [], stderr = [],
                          extract_calls = [(content, True, Some fmt)]\<rparr>)"
    by (simp add: world0_def)
  have m: "extract_recall_main (script # p # fmt # rest) fs ext world0
           = (Exits ErrorHandler 1,
              \<lparr>stdout = [],
               stderr = (if issubclass (cls e) ValueError \<or> issubclass (cls e) OSError
                         then ''Error: '' else ''Unexpected error: '') @ msg e @ nl,
               extract_calls = [(content, True, Some fmt)]\<rparr>)"
    using fmt assms(2-6) by (rule main_extract_error)
  show ?thesis
    using r m by simp
qed

theorem collaborator_error_by_class_witness:
  "''html'' \<in> {''html'', ''txt''} \<and>
   path_exists demo_fs ''page.html'' \<and> path_is_file demo_fs ''page.html'' \<and>
   path_read_text demo_fs ''page.html'' = Inr ''<p>Hello</p>'' \<and>
   ext_runtime_error ''<p>Hello</p>'' True (Some ''html'')
     = Inl \<lparr>cls = RuntimeError, msg = ''parser failed''\<rparr> \<and>
   issubclass RuntimeError Exception \<and>
   run [''extract-recall.py'', ''page.html'', ''html''] demo_fs ext_runtime_error world0
     = (Raises \<lparr>cls = RuntimeError, msg = ''parser failed''\<rparr>,
        \<lparr>stdout = [], stderr = [],
         extract_calls = [(''<p>Hello</p>'', True, Some ''html'')]\<rparr>) \<and>
   extract_recall_main [''extract-recall.py'', ''page.html'', ''html'']
       demo_fs ext_runtime_error world0
     = (Exits ErrorHandler 1,
        \<lparr>stdout = [], stderr = ''Unexpected error: parser failed'' @ nl,
         extract_calls = [(''<p>Hello</p>'', True, Some ''html'')]\<rparr>)"
  using collaborator_error_by_class
          [of "''html''" demo_fs "''page.html''" "''<p>Hello</p>''" ext_runtime_error
              "\<lparr>cls = RuntimeError, msg = ''parser failed''\<rparr>" "''extract-recall.py''" "[]"]
  by (simp add: demo_fs_def ext_runtime_error_def)

text \<open>
  As first stated, C2 promises \<^verbatim>\<open>Unexpected error: <message>\<close> for a collaborator
  error of any kind. A collaborator that raises a \<^verbatim>\<open>ValueError\<close> is reported by the
  first clause of the handler, as \<^verbatim>\<open>Error: <message>\<close>.
\<close>

theorem collaborator_error_counterexample:
  "ext_value_error ''<p>Hello</p>'' True (Some ''txt'')
     = Inl \<lparr>cls = ValueError, msg = ''bad markup''\<rparr> \<and>
   extract_recall_main [''extract-recall.py'', ''page.html'', ''txt'']
       demo_fs ext_value_error world0
     = (Exits ErrorHandler 1,
        \<lparr>stdout = [], stderr = ''Error: bad markup'' @ nl,
         extract_calls = [(''<p>Hello</p>'', True, Some ''txt'')]\<rparr>) \<and>
   stderr (snd (extract_recall_main [''extract-recall.py'', ''page.html'', ''txt'']
                  demo_fs ext_value_error world0))
     \<noteq> ''Unexpected error: bad markup'' @ nl"
proof -
  have fmt: "''txt'' \<in> set valid_formats"
    by (simp add: set_valid_formats)
  have "extract_recall_main [''extract-recall.py'', ''page.html'', ''txt'']
       demo_fs ext_value_error world0
     = (Exits ErrorHandler 1,
        \<lparr>stdout = [], stderr = ''Error: bad markup'' @ nl,
         extract_calls = [(''<p>Hello</p>'', True, Some ''txt'')]\<rparr>)"
    using main_extract_error
            [OF fmt, of demo_fs "''page.html''" "''<p>Hello</p>''" ext_value_error
               "\<lparr>cls = ValueError, msg = ''bad markup''\<rparr>" "''extract-recall.py''" "[]"]
    by (simp add: demo_fs_def ext_value_error_def)
  then show ?thesis
    by (simp add: ext_value_error_def)
qed



text \<open>
  Claim C3, amended. In the pipeline of \<^verbatim>\<open>extract-recall.py\<close> the argument parser,
  the file reader and the body \<^verbatim>\<open>run\<close> never leave the process, and whenever
  \<^verbatim>\<open>main\<close> leaves it, the exit is the one of the error handler, with status 1.
\<close>

theorem pipeline_exits_only_in_handler:
  "get_args_from_command_line argv \<noteq> Exits s c
   \<and> read_file_content fs p \<noteq> Exits s c
   \<and> fst (run argv fs ext w) \<noteq> Exits s c
   \<and> (fst (extract_recall_main argv fs ext w) = Exits s c \<longrightarrow> s = ErrorHandler \<and> c = 1)"
proof (intro conjI impI)
  show "get_args_from_command_line argv \<noteq> Exits s c"
    by (rule get_args_never_exits)
  show "read_file_content fs p \<noteq> Exits s c"
    by (rule read_file_never_exits)
  show "fst (run argv fs ext w) \<noteq> Exits s c"
    by (rule run_never_exits)
next
  assume "fst (extract_recall_main argv fs ext w) = Exits s c"
  then have "fst (run_with_error_handling (run argv fs ext) w) = Exits s c"
    by (simp add: extract_recall_main_def split: prod.splits outcome.splits)
  then have "(s = ErrorHandler \<and> c = 1) \<or> fst (run argv fs ext w) = Exits s c"
    by (rule handler_exit_site)
  then show "s = ErrorHandler" and "c = 1"
    by (simp_all add: run_never_exits)
qed

theorem pipeline_exits_only_in_handler_witness:
  "fst (extract_recall_main [''extract-recall.py''] demo_fs ext_text world0)
     = Exits ErrorHandler 1
   \<and> get_args_from_command_line [''extract-recall.py''] \<noteq> Exits ErrorHandler 1
   \<and> read_file_content demo_fs ''docs'' \<noteq> Exits ErrorHandler 1
   \<and> fst (run [''extract-recall.py''] demo_fs ext_text world0) \<noteq> Exits ErrorHandler 1"
proof -
  have "fst (extract_recall_main [''extract-recall.py''] demo_fs ext_text world0)
          = Exits ErrorHandler 1"
    by (simp add: extract_recall_main_def run_with_error_handling_def run_def
          get_args_from_command_line_def)
  then show ?thesis
    using pipeline_exits_only_in_handler
            [of "[''extract-recall.py'']" ErrorHandler 1 demo_fs "''docs''" ext_text world0]
    by simp
qed

text \<open>
  As first stated, C3 speaks of every component of the program. The second entry script,
  \<^verbatim>\<open>trafilatura-recall-extractor.py\<close>, does not use the error handler: its
  \<^verbatim>\<open>main\<close> calls \<^verbatim>\<open>sys.exit(1)\<close> itself, here for a missing argument.
\<close>

theorem direct_exit_counterexample:
  "recall_extractor_main [''trafilatura-recall-extractor.py''] demo_fs ext_text world0
     = (Exits RecallExtractorMain 1,
        \<lparr>stdout = [], stderr = ''Missing argument: file path'' @ nl, extract_calls = []\<rparr>)
   \<and> RecallExtractorMain \<noteq> ErrorHandler"
  by (simp add: recall_extractor_main_def stderr_write_def world0_def)



end
